theory Spec2Isabelle
  imports Complex_Main "HOL-Library.AList" "HOL-Library.Word"
begin

section \<open>Data model of the router cache\<close>

text \<open>
  The cache of the request router keeps Go maps keyed by strings. A Go map is embedded as
  an association list: lookup is \<open>map_of\<close>, \<open>m[k] = v\<close> is \<open>AList.update k v\<close> and
  \<open>delete(m, k)\<close> is \<open>AList.delete k\<close>. Ranging over a map visits the keys of
  the list; Go leaves the order open, and no operation below depends on it.
  Every method of the cache takes the cache's mutex for its whole body, so a method is
  one atomic state transformer; the mutex itself is not part of the state.
\<close>

record Pod =
  Name :: string
  Namespace :: string
  Labels :: "(string \<times> string) list"
  PodIP :: string
  Phase :: string

record ModelAdapter =
  MName :: string
  MNamespace :: string
  Instances :: "string list"
  MPhase :: string

datatype MetricValue =
    SimpleMetricValue real
  | HistogramMetricValue real real "(string \<times> real) list"
  | PrometheusMetricValue string

record MetricSubscriber =
  SubscribedMetrics :: "string list"

datatype RedisClient = RedisClient string

datatype PrometheusApi = PrometheusApi string

text \<open>
  \<open>metrics\<close> and \<open>ModelMetrics\<close> may be nil maps (\<open>None\<close>); the five maps that the
  constructor allocates are never set to nil afterwards and are plain association lists.
  Trace counters are Go \<open>int\<close>, 64 bits wide on the supported platforms.
\<close>

record Cache =
  redisClient :: "RedisClient option"
  prometheusApi :: "PrometheusApi option"
  initialized :: bool
  subscribers :: "MetricSubscriber list"
  metrics :: "(string \<times> string) list option"
  ModelMetrics :: "(string \<times> (string \<times> string) list) list option"
  Pods :: "(string \<times> Pod) list"
  PodMetrics :: "(string \<times> (string \<times> MetricValue) list) list"
  PodToModelMapping :: "(string \<times> (string \<times> unit) list) list"
  ModelToPodMapping :: "(string \<times> (string \<times> Pod) list) list"
  requestTrace :: "(string \<times> (string \<times> 64 word) list) list"

definition modelIdentifier :: string where
  "modelIdentifier = ''model.aibrix.ai/name''"

definition expireWriteRequestTraceIntervalInMins :: int where
  "expireWriteRequestTraceIntervalInMins = 10"

definition keyWriteRequestTraceIntervalInSeconds :: string where
  "keyWriteRequestTraceIntervalInSeconds = ''meta_interval_sec''"

definition writeRequestTraceIntervalInSeconds :: int where
  "writeRequestTraceIntervalInSeconds = 10"

definition keyPrecisionRequestTrace :: string where
  "keyPrecisionRequestTrace = ''meta_precision''"

definition precisionRequestTrace :: real where
  "precisionRequestTrace = 1 / 10"

definition keyVersionRequestTrace :: string where
  "keyVersionRequestTrace = ''meta_v''"

definition versionRequestTrace :: int where
  "versionRequestTrace = 2"

text \<open>The value that \<open>NewCache\<close> assigns to the package-level instance.\<close>

definition NewCache_instance :: "RedisClient option \<Rightarrow> PrometheusApi option \<Rightarrow> Cache" where
  "NewCache_instance rc api =
     \<lparr> redisClient = rc, prometheusApi = api, initialized = True, subscribers = [],
       metrics = None, ModelMetrics = None, Pods = [], PodMetrics = [],
       PodToModelMapping = [], ModelToPodMapping = [], requestTrace = [] \<rparr>"

section \<open>The pod/model index\<close>

definition addPodAndModelMapping :: "string \<Rightarrow> string \<Rightarrow> Cache \<Rightarrow> Cache" where
  "addPodAndModelMapping podName modelName c =
     (case map_of (Pods c) podName of
        None \<Rightarrow> c
      | Some pod \<Rightarrow>
          let p2m = (case map_of (PodToModelMapping c) podName of
                       None \<Rightarrow> AList.update podName [(modelName, ())] (PodToModelMapping c)
                     | Some models \<Rightarrow>
                         AList.update podName (AList.update modelName () models)
                           (PodToModelMapping c));
              m2p = (case map_of (ModelToPodMapping c) modelName of
                       None \<Rightarrow> AList.update modelName [(podName, pod)] (ModelToPodMapping c)
                     | Some pods \<Rightarrow>
                         AList.update modelName (AList.update podName pod pods)
                           (ModelToPodMapping c))
          in c\<lparr>PodToModelMapping := p2m, ModelToPodMapping := m2p\<rparr>)"

definition deletePodAndModelMapping :: "string \<Rightarrow> string \<Rightarrow> Cache \<Rightarrow> Cache" where
  "deletePodAndModelMapping podName modelName c =
     (let c1 = (case map_of (PodToModelMapping c) podName of
                  None \<Rightarrow> c
                | Some models \<Rightarrow>
                    c\<lparr>PodToModelMapping :=
                        AList.update podName (AList.delete modelName models)
                          (PodToModelMapping c)\<rparr>)
      in (case map_of (ModelToPodMapping c1) modelName of
            None \<Rightarrow> c1
          | Some pods \<Rightarrow>
              c1\<lparr>ModelToPodMapping :=
                   AList.update modelName (AList.delete podName pods)
                     (ModelToPodMapping c1)\<rparr>))"

definition addPod :: "Pod \<Rightarrow> Cache \<Rightarrow> Cache" where
  "addPod pod c =
     (case map_of (Labels pod) modelIdentifier of
        None \<Rightarrow> c
      | Some modelName \<Rightarrow>
          addPodAndModelMapping (Name pod) modelName
            (c\<lparr>Pods := AList.update (Name pod) pod (Pods c)\<rparr>))"

definition updatePod :: "Pod \<Rightarrow> Pod \<Rightarrow> Cache \<Rightarrow> Cache" where
  "updatePod oldPod newPod c =
     (case (map_of (Labels oldPod) modelIdentifier, map_of (Labels newPod) modelIdentifier) of
        (None, None) \<Rightarrow> c
      | (oldL, newL) \<Rightarrow>
          let c1 = (case oldL of
                      None \<Rightarrow> c
                    | Some oldModelName \<Rightarrow>
                        deletePodAndModelMapping (Name oldPod) oldModelName
                          (c\<lparr>Pods := AList.delete (Name oldPod) (Pods c)\<rparr>))
          in (case newL of
                None \<Rightarrow> c1
              | Some newModelName \<Rightarrow>
                  addPodAndModelMapping (Name newPod) newModelName
                    (c1\<lparr>Pods := AList.update (Name newPod) newPod (Pods c1)\<rparr>)))"

text \<open>
  \<open>deletePod\<close> ranges over the models recorded for the pod and deletes each pair; the
  entry deleted in an iteration is the one being visited, so every key is visited once.
\<close>

definition deletePod :: "Pod \<Rightarrow> Cache \<Rightarrow> Cache" where
  "deletePod pod c =
     (case map_of (Labels pod) modelIdentifier of
        None \<Rightarrow> c
      | Some _ \<Rightarrow>
          let c1 = (case map_of (PodToModelMapping c) (Name pod) of
                      None \<Rightarrow> c
                    | Some models \<Rightarrow>
                        fold (\<lambda>modelName. deletePodAndModelMapping (Name pod) modelName)
                          (map fst models) c)
          in c1\<lparr>PodToModelMapping := AList.delete (Name pod) (PodToModelMapping c1),
                Pods := AList.delete (Name pod) (Pods c1),
                PodMetrics := AList.delete (Name pod) (PodMetrics c1)\<rparr>)"

definition addModelAdapter :: "ModelAdapter \<Rightarrow> Cache \<Rightarrow> Cache" where
  "addModelAdapter model c =
     fold (\<lambda>pod. addPodAndModelMapping pod (MName model)) (Instances model) c"

definition updateModelAdapter :: "ModelAdapter \<Rightarrow> ModelAdapter \<Rightarrow> Cache \<Rightarrow> Cache" where
  "updateModelAdapter oldModel newModel c =
     fold (\<lambda>pod. addPodAndModelMapping pod (MName newModel)) (Instances newModel)
       (fold (\<lambda>pod. deletePodAndModelMapping pod (MName oldModel)) (Instances oldModel) c)"

definition deleteModelAdapter :: "ModelAdapter \<Rightarrow> Cache \<Rightarrow> Cache" where
  "deleteModelAdapter model c =
     (let c1 = fold (\<lambda>pod. deletePodAndModelMapping pod (MName model)) (Instances model) c
      in c1\<lparr>ModelToPodMapping := AList.delete (MName model) (ModelToPodMapping c1)\<rparr>)"

text \<open>The events that the two informers dispatch to the handlers registered by \<open>NewCache\<close>.\<close>

datatype Event =
    PodAdded Pod
  | PodUpdated Pod Pod
  | PodDeleted Pod
  | ModelAdapterAdded ModelAdapter
  | ModelAdapterUpdated ModelAdapter ModelAdapter
  | ModelAdapterDeleted ModelAdapter

fun handleEvent :: "Event \<Rightarrow> Cache \<Rightarrow> Cache" where
  "handleEvent (PodAdded p) c = addPod p c"
| "handleEvent (PodUpdated p q) c = updatePod p q c"
| "handleEvent (PodDeleted p) c = deletePod p c"
| "handleEvent (ModelAdapterAdded m) c = addModelAdapter m c"
| "handleEvent (ModelAdapterUpdated m n) c = updateModelAdapter m n c"
| "handleEvent (ModelAdapterDeleted m) c = deleteModelAdapter m c"

definition handleEvents :: "Event list \<Rightarrow> Cache \<Rightarrow> Cache" where
  "handleEvents evs c = fold handleEvent evs c"

text \<open>Presence of a pair in each of the two projections.\<close>

definition inPodToModel :: "Cache \<Rightarrow> string \<Rightarrow> string \<Rightarrow> bool" where
  "inPodToModel c podName modelName =
     (case map_of (PodToModelMapping c) podName of
        None \<Rightarrow> False
      | Some models \<Rightarrow> map_of models modelName \<noteq> None)"

definition inModelToPod :: "Cache \<Rightarrow> string \<Rightarrow> string \<Rightarrow> bool" where
  "inModelToPod c modelName podName =
     (case map_of (ModelToPodMapping c) modelName of
        None \<Rightarrow> False
      | Some pods \<Rightarrow> map_of pods podName \<noteq> None)"

text \<open>
  One direction of the mirror: every pair of the model-to-pods projection has its
  counterpart in the pod-to-models projection.
\<close>

definition modelToPodMirrored :: "Cache \<Rightarrow> bool" where
  "modelToPodMirrored c = (\<forall>m p. inModelToPod c m p \<longrightarrow> inPodToModel c p m)"

section \<open>The request trace\<close>

text \<open>
  \<open>fmt.Sprintf("%v", n)\<close> for an integer: decimal digits, with a leading minus sign.
\<close>

definition digit_char :: "nat \<Rightarrow> char" where
  "digit_char d =
     (if d = 0 then CHR ''0'' else if d = 1 then CHR ''1'' else if d = 2 then CHR ''2''
      else if d = 3 then CHR ''3'' else if d = 4 then CHR ''4'' else if d = 5 then CHR ''5''
      else if d = 6 then CHR ''6'' else if d = 7 then CHR ''7'' else if d = 8 then CHR ''8''
      else CHR ''9'')"

function string_of_nat :: "nat \<Rightarrow> string" where
  "string_of_nat n =
     (if n < 10 then [digit_char n] else string_of_nat (n div 10) @ [digit_char (n mod 10)])"
  by pat_completeness auto
termination
  by (relation "measure id") auto

declare string_of_nat.simps [simp del]

definition formatInt :: "int \<Rightarrow> string" where
  "formatInt i = (if i < 0 then CHR ''-'' # string_of_nat (nat (- i)) else string_of_nat (nat i))"

text \<open>
  The bucket index is computed in \<open>float64\<close>. Finite values are embedded as reals, so the
  rounding error of the machine operations is not part of the model; the two special values
  that the computation can produce from an \<open>int64\<close> argument are kept apart. Go leaves the
  result of converting a value outside the range of \<open>int64\<close> (or a NaN) to the
  implementation, which is the parameter \<open>impl\<close> below.
\<close>

datatype f64 = Finite real | NegInf | NaN

definition float64 :: "int \<Rightarrow> f64" where
  "float64 n = Finite (real_of_int n)"

fun Log2 :: "f64 \<Rightarrow> f64" where
  "Log2 (Finite x) = (if x < 0 then NaN else if x = 0 then NegInf else Finite (log 2 x))"
| "Log2 NegInf = NaN"
| "Log2 NaN = NaN"

text \<open>Division by a positive finite constant.\<close>

fun fdiv :: "f64 \<Rightarrow> real \<Rightarrow> f64" where
  "fdiv (Finite x) d = Finite (x / d)"
| "fdiv NegInf d = NegInf"
| "fdiv NaN d = NaN"

text \<open>\<open>math.Round\<close> rounds half away from zero and keeps the special values.\<close>

fun Round :: "f64 \<Rightarrow> f64" where
  "Round (Finite x) =
     Finite (of_int (if x < 0 then - \<lfloor>- x + 1 / 2\<rfloor> else \<lfloor>x + 1 / 2\<rfloor>))"
| "Round NegInf = NegInf"
| "Round NaN = NaN"

fun int64 :: "(f64 \<Rightarrow> int) \<Rightarrow> f64 \<Rightarrow> int" where
  "int64 impl (Finite x) =
     (if - (2 ^ 63) \<le> x \<and> x < 2 ^ 63 then (if x < 0 then \<lceil>x\<rceil> else \<lfloor>x\<rfloor>)
      else impl (Finite x))"
| "int64 impl NegInf = impl NegInf"
| "int64 impl NaN = impl NaN"

text \<open>The conversion on amd64: the instruction yields the smallest \<open>int64\<close>.\<close>

definition int64_amd64 :: "f64 \<Rightarrow> int" where
  "int64_amd64 x = - (2 ^ 63)"

definition bucketIndex :: "(f64 \<Rightarrow> int) \<Rightarrow> int \<Rightarrow> int" where
  "bucketIndex impl tokens =
     int64 impl (Round (fdiv (Log2 (float64 tokens)) precisionRequestTrace))"

definition bucketKey :: "int \<Rightarrow> int \<Rightarrow> string" where
  "bucketKey inputIndex outputIndex = formatInt inputIndex @ '':'' @ formatInt outputIndex"

definition newTrace :: "(string \<times> 64 word) list" where
  "newTrace =
     AList.update keyVersionRequestTrace (word_of_int versionRequestTrace)
       (AList.update keyPrecisionRequestTrace 10
          (AList.update keyWriteRequestTraceIntervalInSeconds
             (word_of_int writeRequestTraceIntervalInSeconds) []))"

definition AddRequestTrace :: "(f64 \<Rightarrow> int) \<Rightarrow> string \<Rightarrow> int \<Rightarrow> int \<Rightarrow> Cache \<Rightarrow> Cache" where
  "AddRequestTrace impl modelName inputTokens outputTokens c =
     (let inputIndex = bucketIndex impl inputTokens;
          outputIndex = bucketIndex impl outputTokens;
          trace = (case map_of (requestTrace c) modelName of None \<Rightarrow> [] | Some t \<Rightarrow> t);
          trace1 = (if length trace = 0 then newTrace else trace);
          key = bucketKey inputIndex outputIndex;
          count = (case map_of trace1 key of None \<Rightarrow> 0 | Some n \<Rightarrow> n)
      in c\<lparr>requestTrace :=
             AList.update modelName (AList.update key (count + 1) trace1) (requestTrace c)\<rparr>)"

text \<open>Reading \<open>requestTrace[modelName][key]\<close>: a missing entry reads as zero.\<close>

definition traceCount :: "Cache \<Rightarrow> string \<Rightarrow> string \<Rightarrow> 64 word" where
  "traceCount c modelName key =
     (case map_of (requestTrace c) modelName of
        None \<Rightarrow> 0
      | Some t \<Rightarrow> (case map_of t key of None \<Rightarrow> 0 | Some n \<Rightarrow> n))"

definition metaKeys :: "string set" where
  "metaKeys = {keyWriteRequestTraceIntervalInSeconds, keyPrecisionRequestTrace,
               keyVersionRequestTrace}"



section \<open>Flushing the trace\<close>

text \<open>
  The JSON encoder and the key/value store are outside the cache: \<open>marshal\<close> gives the
  encoding of a trace or fails, \<open>redisSet\<close> tells whether a write succeeds. A flush
  yields the cache, the writes issued, the errors logged, and whether it returned or
  panicked (a call through a nil client). The deferred function that empties the trace
  runs in both cases.
\<close>

datatype panic = AssignmentToEntryInNilMap | NilPointerDereference

datatype Outcome = Returned | Panicked panic

datatype LogEntry = MarshalError string | RedisError string

type_synonym RedisSet = "string \<times> string \<times> int"

fun traceWriteLoop ::
  "((string \<times> 64 word) list \<Rightarrow> string option) \<Rightarrow> (string \<Rightarrow> string \<Rightarrow> bool) \<Rightarrow>
   RedisClient option \<Rightarrow> int \<Rightarrow> (string \<times> (string \<times> 64 word) list) list \<Rightarrow>
   RedisSet list \<times> LogEntry list \<times> Outcome" where
  "traceWriteLoop marshal redisSet client roundT [] = ([], [], Returned)"
| "traceWriteLoop marshal redisSet client roundT ((modelName, trace) # rest) =
     (let key = ''aibrix:'' @ modelName @ ''_request_trace_'' @ formatInt roundT
      in case marshal trace of
           None \<Rightarrow>
             (case traceWriteLoop marshal redisSet client roundT rest of
                (ws, logs, out) \<Rightarrow> (ws, MarshalError modelName # logs, out))
         | Some v \<Rightarrow>
             (case client of
                None \<Rightarrow> ([], [], Panicked NilPointerDereference)
              | Some _ \<Rightarrow>
                  (case traceWriteLoop marshal redisSet client roundT rest of
                     (ws, logs, out) \<Rightarrow>
                       ((key, v, expireWriteRequestTraceIntervalInMins) # ws,
                        (if redisSet key v then logs else RedisError key # logs), out))))"

definition writeRequestTraceToStorage ::
  "((string \<times> 64 word) list \<Rightarrow> string option) \<Rightarrow> (string \<Rightarrow> string \<Rightarrow> bool) \<Rightarrow>
   int \<Rightarrow> Cache \<Rightarrow> Cache \<times> RedisSet list \<times> LogEntry list \<times> Outcome" where
  "writeRequestTraceToStorage marshal redisSet roundT c =
     (c\<lparr>requestTrace := []\<rparr>,
      traceWriteLoop marshal redisSet (redisClient c) roundT (requestTrace c))"

text \<open>
  One tick of the trace ticker. The goroutine ends at once when no client is configured,
  so a tick then does nothing. \<open>%\<close> truncates towards zero.
\<close>

definition goRem :: "int \<Rightarrow> int \<Rightarrow> int" where
  "goRem a b = (if 0 \<le> a then a mod \<bar>b\<bar> else - ((- a) mod \<bar>b\<bar>))"

definition traceTick ::
  "((string \<times> 64 word) list \<Rightarrow> string option) \<Rightarrow> (string \<Rightarrow> string \<Rightarrow> bool) \<Rightarrow>
   int \<Rightarrow> Cache \<Rightarrow> Cache \<times> RedisSet list \<times> LogEntry list \<times> Outcome" where
  "traceTick marshal redisSet t c =
     (if redisClient c = None then (c, [], [], Returned)
      else if length (requestTrace c) = 0 then (c, [], [], Returned)
      else writeRequestTraceToStorage marshal redisSet
             (t - goRem t writeRequestTraceIntervalInSeconds) c)"

section \<open>Metric subscribers\<close>

text \<open>
  Reading a nil map finds no entry; storing into it panics. The first panic ends the call.
\<close>

definition recordMetric :: "string \<Rightarrow> Cache \<Rightarrow> panic + Cache" where
  "recordMetric metric c =
     (case metrics c of
        None \<Rightarrow> Inl AssignmentToEntryInNilMap
      | Some ms \<Rightarrow>
          (if map_of ms metric = None
           then Inr (c\<lparr>metrics := Some (AList.update metric ''yes'' ms)\<rparr>)
           else Inr c))"

fun forEach :: "('a \<Rightarrow> Cache \<Rightarrow> panic + Cache) \<Rightarrow> 'a list \<Rightarrow> Cache \<Rightarrow> panic + Cache" where
  "forEach f [] c = Inr c"
| "forEach f (x # xs) c = (case f x c of Inl e \<Rightarrow> Inl e | Inr c' \<Rightarrow> forEach f xs c')"

definition aggregateMetrics :: "Cache \<Rightarrow> panic + Cache" where
  "aggregateMetrics c =
     forEach (\<lambda>subscriber. forEach recordMetric (SubscribedMetrics subscriber))
       (subscribers c) c"

definition AddSubscriber :: "MetricSubscriber \<Rightarrow> Cache \<Rightarrow> panic + Cache" where
  "AddSubscriber subscriber c = aggregateMetrics (c\<lparr>subscribers := subscribers c @ [subscriber]\<rparr>)"

section \<open>Example objects\<close>

definition example_pod :: Pod where
  "example_pod =
     \<lparr> Name = ''p1'', Namespace = ''default'',
       Labels = [(''model.aibrix.ai/name'', ''llama'')], PodIP = ''10.0.0.1'',
       Phase = ''Running'' \<rparr>"

definition example_pod_unlabelled :: Pod where
  "example_pod_unlabelled =
     \<lparr> Name = ''p1'', Namespace = ''default'', Labels = [], PodIP = ''10.0.0.1'',
       Phase = ''Running'' \<rparr>"

definition example_adapter :: "string list \<Rightarrow> ModelAdapter" where
  "example_adapter pods =
     \<lparr> MName = ''lora-a'', MNamespace = ''default'', Instances = pods,
       MPhase = ''Running'' \<rparr>"

section \<open>Properties of the pod/model index\<close>

lemma Pods_addPodAndModelMapping: "Pods (addPodAndModelMapping p m c) = Pods c"
  by (simp add: addPodAndModelMapping_def Let_def split: option.splits)

lemma Pods_deletePodAndModelMapping: "Pods (deletePodAndModelMapping p m c) = Pods c"
  by (simp add: deletePodAndModelMapping_def Let_def split: option.splits)

lemma inPodToModel_add:
  "inPodToModel (addPodAndModelMapping p m c) p' m' =
     (inPodToModel c p' m' \<or> (map_of (Pods c) p \<noteq> None \<and> p' = p \<and> m' = m))"
  by (auto simp add: addPodAndModelMapping_def inPodToModel_def Let_def update_conv'
      split: option.splits)

lemma inModelToPod_add:
  "inModelToPod (addPodAndModelMapping p m c) m' p' =
     (inModelToPod c m' p' \<or> (map_of (Pods c) p \<noteq> None \<and> p' = p \<and> m' = m))"
  by (auto simp add: addPodAndModelMapping_def inModelToPod_def Let_def update_conv'
      split: option.splits)

lemma inPodToModel_delete:
  "inPodToModel (deletePodAndModelMapping p m c) p' m' =
     (inPodToModel c p' m' \<and> \<not> (p' = p \<and> m' = m))"
  by (auto simp add: deletePodAndModelMapping_def inPodToModel_def Let_def update_conv'
      delete_conv' split: option.splits)

lemma inModelToPod_delete:
  "inModelToPod (deletePodAndModelMapping p m c) m' p' =
     (inModelToPod c m' p' \<and> \<not> (p' = p \<and> m' = m))"
  by (auto simp add: deletePodAndModelMapping_def inModelToPod_def Let_def update_conv'
      delete_conv' split: option.splits)

lemma Pods_fold_add:
  "Pods (fold (\<lambda>pod. addPodAndModelMapping pod m) ps c) = Pods c"
  by (induction ps arbitrary: c) (simp_all add: Pods_addPodAndModelMapping)

lemma Pods_fold_delete:
  "Pods (fold (\<lambda>pod. deletePodAndModelMapping pod m) ps c) = Pods c"
  by (induction ps arbitrary: c) (simp_all add: Pods_deletePodAndModelMapping)

lemma Pods_fold_delete_models:
  "Pods (fold (\<lambda>m. deletePodAndModelMapping p m) ms c) = Pods c"
  by (induction ms arbitrary: c) (simp_all add: Pods_deletePodAndModelMapping)

lemma inPodToModel_fold_add:
  "inPodToModel (fold (\<lambda>pod. addPodAndModelMapping pod m) ps c) p' m' =
     (inPodToModel c p' m' \<or> (p' \<in> set ps \<and> map_of (Pods c) p' \<noteq> None \<and> m' = m))"
  by (induction ps arbitrary: c)
     (auto simp add: inPodToModel_add Pods_addPodAndModelMapping)

lemma inModelToPod_fold_add:
  "inModelToPod (fold (\<lambda>pod. addPodAndModelMapping pod m) ps c) m' p' =
     (inModelToPod c m' p' \<or> (p' \<in> set ps \<and> map_of (Pods c) p' \<noteq> None \<and> m' = m))"
  by (induction ps arbitrary: c)
     (auto simp add: inModelToPod_add Pods_addPodAndModelMapping)

lemma inPodToModel_fold_delete:
  "inPodToModel (fold (\<lambda>pod. deletePodAndModelMapping pod m) ps c) p' m' =
     (inPodToModel c p' m' \<and> \<not> (p' \<in> set ps \<and> m' = m))"
  by (induction ps arbitrary: c) (auto simp add: inPodToModel_delete)

lemma inModelToPod_fold_delete:
  "inModelToPod (fold (\<lambda>pod. deletePodAndModelMapping pod m) ps c) m' p' =
     (inModelToPod c m' p' \<and> \<not> (p' \<in> set ps \<and> m' = m))"
  by (induction ps arbitrary: c) (auto simp add: inModelToPod_delete)

lemma inPodToModel_fold_delete_models:
  "inPodToModel (fold (\<lambda>m. deletePodAndModelMapping p m) ms c) p' m' =
     (inPodToModel c p' m' \<and> \<not> (p' = p \<and> m' \<in> set ms))"
  by (induction ms arbitrary: c) (auto simp add: inPodToModel_delete)

lemma inModelToPod_fold_delete_models:
  "inModelToPod (fold (\<lambda>m. deletePodAndModelMapping p m) ms c) m' p' =
     (inModelToPod c m' p' \<and> \<not> (p' = p \<and> m' \<in> set ms))"
  by (induction ms arbitrary: c) (auto simp add: inModelToPod_delete)

lemma inPodToModel_Pods_update [simp]:
  "inPodToModel (c\<lparr>Pods := x\<rparr>) p m = inPodToModel c p m"
  by (simp add: inPodToModel_def)

lemma inModelToPod_Pods_update [simp]:
  "inModelToPod (c\<lparr>Pods := x\<rparr>) m p = inModelToPod c m p"
  by (simp add: inModelToPod_def)

lemma inPodToModel_keys:
  "map_of (PodToModelMapping c) p = Some models \<Longrightarrow>
     inPodToModel c p m = (m \<in> set (map fst models))"
  by (simp add: inPodToModel_def map_of_eq_None_iff)

lemma inPodToModel_drop_pod:
  "inPodToModel (c\<lparr>PodToModelMapping := AList.delete n (PodToModelMapping c),
                    Pods := x, PodMetrics := y\<rparr>) p m =
     (inPodToModel c p m \<and> p \<noteq> n)"
  by (auto simp add: inPodToModel_def delete_conv')

lemma inModelToPod_drop_pod:
  "inModelToPod (c\<lparr>PodToModelMapping := z, Pods := x, PodMetrics := y\<rparr>) m p =
     inModelToPod c m p"
  by (simp add: inModelToPod_def)

lemma inPodToModel_deletePod:
  "inPodToModel (deletePod pod c) p m =
     (inPodToModel c p m \<and> \<not> (map_of (Labels pod) modelIdentifier \<noteq> None \<and> p = Name pod))"
  by (auto simp add: deletePod_def Let_def inPodToModel_drop_pod
      inPodToModel_fold_delete_models split: option.splits)

lemma inModelToPod_deletePod:
  "inModelToPod (deletePod pod c) m p =
     (inModelToPod c m p \<and>
      \<not> (map_of (Labels pod) modelIdentifier \<noteq> None \<and> p = Name pod \<and> inPodToModel c p m))"
proof (cases "map_of (Labels pod) modelIdentifier")
  case None
  then show ?thesis by (simp add: deletePod_def)
next
  case (Some l)
  note label = this
  show ?thesis
  proof (cases "map_of (PodToModelMapping c) (Name pod)")
    case None
    with label show ?thesis
      by (auto simp add: deletePod_def inModelToPod_drop_pod inPodToModel_def)
  next
    case (Some models)
    with label show ?thesis
      using inPodToModel_keys [OF Some]
      by (auto simp add: deletePod_def Let_def inModelToPod_drop_pod
          inModelToPod_fold_delete_models)
  qed
qed

lemma inPodToModel_deleteModelAdapter:
  "inPodToModel (deleteModelAdapter model c) p m =
     (inPodToModel c p m \<and> \<not> (p \<in> set (Instances model) \<and> m = MName model))"
  by (simp add: deleteModelAdapter_def Let_def inPodToModel_def
      inPodToModel_fold_delete [unfolded inPodToModel_def])

lemma inModelToPod_deleteModelAdapter:
  "inModelToPod (deleteModelAdapter model c) m p = (inModelToPod c m p \<and> m \<noteq> MName model)"
  by (auto simp add: deleteModelAdapter_def Let_def inModelToPod_def delete_conv'
      inModelToPod_fold_delete [unfolded inModelToPod_def])

lemma inPodToModel_addPod:
  "inPodToModel (addPod pod c) p m =
     (inPodToModel c p m \<or> (p = Name pod \<and> map_of (Labels pod) modelIdentifier = Some m))"
  by (auto simp add: addPod_def inPodToModel_add update_conv' split: option.splits)

lemma inModelToPod_addPod:
  "inModelToPod (addPod pod c) m p =
     (inModelToPod c m p \<or> (p = Name pod \<and> map_of (Labels pod) modelIdentifier = Some m))"
  by (auto simp add: addPod_def inModelToPod_add update_conv' split: option.splits)

lemma inPodToModel_updatePod:
  "inPodToModel (updatePod old new c) p m =
     ((inPodToModel c p m \<and>
        \<not> (p = Name old \<and> map_of (Labels old) modelIdentifier = Some m)) \<or>
      (p = Name new \<and> map_of (Labels new) modelIdentifier = Some m))"
  by (auto simp add: updatePod_def inPodToModel_add inPodToModel_delete update_conv' Let_def
      split: option.splits)

lemma inModelToPod_updatePod:
  "inModelToPod (updatePod old new c) m p =
     ((inModelToPod c m p \<and>
        \<not> (p = Name old \<and> map_of (Labels old) modelIdentifier = Some m)) \<or>
      (p = Name new \<and> map_of (Labels new) modelIdentifier = Some m))"
  by (auto simp add: updatePod_def inModelToPod_add inModelToPod_delete update_conv' Let_def
      split: option.splits)

lemma modelToPodMirrored_handleEvent:
  "modelToPodMirrored c \<Longrightarrow> modelToPodMirrored (handleEvent ev c)"
  unfolding modelToPodMirrored_def
  by (cases ev)
     (auto simp add: inPodToModel_addPod inModelToPod_addPod inPodToModel_updatePod
        inModelToPod_updatePod inPodToModel_deletePod inModelToPod_deletePod
        addModelAdapter_def updateModelAdapter_def inPodToModel_fold_add inModelToPod_fold_add
        inPodToModel_fold_delete inModelToPod_fold_delete Pods_fold_delete
        inPodToModel_deleteModelAdapter inModelToPod_deleteModelAdapter)

lemma modelToPodMirrored_fold:
  "modelToPodMirrored c \<Longrightarrow> modelToPodMirrored (fold handleEvent evs c)"
  by (induction evs arbitrary: c) (simp_all add: modelToPodMirrored_handleEvent)

lemma modelToPodMirrored_handleEvents:
  "modelToPodMirrored (handleEvents evs (NewCache_instance rc api))"
  unfolding handleEvents_def
  by (rule modelToPodMirrored_fold)
     (simp add: modelToPodMirrored_def inModelToPod_def NewCache_instance_def)

lemmas example_defs = example_pod_def example_pod_unlabelled_def example_adapter_def
  NewCache_instance_def handleEvents_def modelIdentifier_def

lemmas index_defs = addPod_def updatePod_def deletePod_def addModelAdapter_def
  updateModelAdapter_def deleteModelAdapter_def addPodAndModelMapping_def
  deletePodAndModelMapping_def

text \<open>
  Claim C1 (mirror of the two projections after any sequence of events). The handlers keep
  \<open>modelToPodMirrored\<close>, but \<open>deleteModelAdapter\<close> drops the whole model-to-pods entry
  after unbinding only the pods listed in the deleted object. Evaluated on the events
  add pod \<open>p1\<close> (label \<open>llama\<close>), add adapter \<open>lora-a\<close> with instances \<open>[p1]\<close>, delete
  adapter \<open>lora-a\<close> with instances \<open>[]\<close>: the pair \<open>(p1, lora-a)\<close> stays in the
  pod-to-models projection and is gone from the model-to-pods projection.
\<close>

theorem mirror_broken_by_deleteModelAdapter:
  "PodToModelMapping
     (handleEvents [PodAdded example_pod, ModelAdapterAdded (example_adapter [''p1'']),
                    ModelAdapterDeleted (example_adapter [])]
        (NewCache_instance None None)) = [(''p1'', [(''llama'', ()), (''lora-a'', ())])] \<and>
   ModelToPodMapping
     (handleEvents [PodAdded example_pod, ModelAdapterAdded (example_adapter [''p1'']),
                    ModelAdapterDeleted (example_adapter [])]
        (NewCache_instance None None)) = [(''llama'', [(''p1'', example_pod)])] \<and>
   inPodToModel
     (handleEvents [PodAdded example_pod, ModelAdapterAdded (example_adapter [''p1'']),
                    ModelAdapterDeleted (example_adapter [])]
        (NewCache_instance None None)) ''p1'' ''lora-a'' \<and>
   \<not> inModelToPod
     (handleEvents [PodAdded example_pod, ModelAdapterAdded (example_adapter [''p1'']),
                    ModelAdapterDeleted (example_adapter [])]
        (NewCache_instance None None)) ''lora-a'' ''p1''"
  by (simp add: example_defs index_defs inPodToModel_def inModelToPod_def)

lemma inPodToModel_updateModelAdapter:
  "inPodToModel (updateModelAdapter old new c) p m =
     ((inPodToModel c p m \<and> \<not> (p \<in> set (Instances old) \<and> m = MName old)) \<or>
      (p \<in> set (Instances new) \<and> map_of (Pods c) p \<noteq> None \<and> m = MName new))"
  by (simp add: updateModelAdapter_def inPodToModel_fold_add inPodToModel_fold_delete
      Pods_fold_delete)

lemma inModelToPod_updateModelAdapter:
  "inModelToPod (updateModelAdapter old new c) m p =
     ((inModelToPod c m p \<and> \<not> (p \<in> set (Instances old) \<and> m = MName old)) \<or>
      (p \<in> set (Instances new) \<and> map_of (Pods c) p \<noteq> None \<and> m = MName new))"
  by (simp add: updateModelAdapter_def inModelToPod_fold_add inModelToPod_fold_delete
      Pods_fold_delete)

lemma Pods_updateModelAdapter: "Pods (updateModelAdapter old new c) = Pods c"
  by (simp add: updateModelAdapter_def Pods_fold_add Pods_fold_delete)

text \<open>
  Claim C5, as stated, fails. On the constructed cache, updating adapter \<open>lora-a\<close> from
  instances \<open>[]\<close> to \<open>[p1]\<close> adds no binding, since \<open>p1\<close> is not in the pod registry.
  And a binding listed in both objects is removed when the pod has left the registry: after
  pod \<open>p1\<close> was added, bound to \<open>lora-a\<close> and then updated to carry no model label, the
  update of \<open>lora-a\<close> from \<open>[p1]\<close> to \<open>[p1]\<close> removes \<open>(p1, lora-a)\<close>.
\<close>

theorem updateModelAdapter_not_symmetric_difference:
  "\<not> inPodToModel
       (updateModelAdapter (example_adapter []) (example_adapter [''p1''])
          (NewCache_instance None None)) ''p1'' ''lora-a'' \<and>
   inPodToModel
     (handleEvents [PodAdded example_pod, ModelAdapterAdded (example_adapter [''p1'']),
                    PodUpdated example_pod example_pod_unlabelled]
        (NewCache_instance None None)) ''p1'' ''lora-a'' \<and>
   \<not> inPodToModel
       (updateModelAdapter (example_adapter [''p1'']) (example_adapter [''p1''])
          (handleEvents [PodAdded example_pod, ModelAdapterAdded (example_adapter [''p1'']),
                         PodUpdated example_pod example_pod_unlabelled]
             (NewCache_instance None None))) ''p1'' ''lora-a''"
  by (simp add: example_defs index_defs inPodToModel_def)

text \<open>
  Claim C5, amended. For an update of one adapter (old and new object carry the same name):
  a binding listed only in the old instances is removed; a binding listed in the new
  instances is present afterwards whenever the pod is in the pod registry; a binding listed
  in both is removed when the pod is not in the registry; a binding listed in neither, or
  only in the new instances for an unregistered pod, is as before; bindings of other models
  and the registry are unchanged.
\<close>

theorem updateModelAdapter_bindings:
  assumes "MName old = MName new"
  shows "(p \<in> set (Instances old) \<and> p \<notin> set (Instances new) \<longrightarrow>
            \<not> inPodToModel (updateModelAdapter old new c) p (MName new) \<and>
            \<not> inModelToPod (updateModelAdapter old new c) (MName new) p) \<and>
         (p \<in> set (Instances new) \<and> map_of (Pods c) p \<noteq> None \<longrightarrow>
            inPodToModel (updateModelAdapter old new c) p (MName new) \<and>
            inModelToPod (updateModelAdapter old new c) (MName new) p) \<and>
         (p \<in> set (Instances new) \<and> map_of (Pods c) p = None \<and> p \<in> set (Instances old) \<longrightarrow>
            \<not> inPodToModel (updateModelAdapter old new c) p (MName new) \<and>
            \<not> inModelToPod (updateModelAdapter old new c) (MName new) p) \<and>
         (p \<notin> set (Instances old) \<and> (p \<notin> set (Instances new) \<or> map_of (Pods c) p = None) \<longrightarrow>
            inPodToModel (updateModelAdapter old new c) p (MName new) =
              inPodToModel c p (MName new) \<and>
            inModelToPod (updateModelAdapter old new c) (MName new) p =
              inModelToPod c (MName new) p) \<and>
         (m \<noteq> MName new \<longrightarrow>
            inPodToModel (updateModelAdapter old new c) p m = inPodToModel c p m \<and>
            inModelToPod (updateModelAdapter old new c) m p = inModelToPod c m p) \<and>
         Pods (updateModelAdapter old new c) = Pods c"
  using assms
  by (auto simp add: inPodToModel_updateModelAdapter inModelToPod_updateModelAdapter
      Pods_updateModelAdapter)

text \<open>
  The amended statement at the update of \<open>lora-a\<close> from \<open>[]\<close> to \<open>[p1]\<close> with \<open>p1\<close>
  registered.
\<close>

theorem updateModelAdapter_bindings_witness:
  "MName (example_adapter []) = MName (example_adapter [''p1'']) \<and>
   ''p1'' \<in> set (Instances (example_adapter [''p1''])) \<and>
   map_of (Pods (addPod example_pod (NewCache_instance None None))) ''p1'' \<noteq> None \<and>
   inPodToModel
     (updateModelAdapter (example_adapter []) (example_adapter [''p1''])
        (addPod example_pod (NewCache_instance None None))) ''p1'' ''lora-a'' \<and>
   inModelToPod
     (updateModelAdapter (example_adapter []) (example_adapter [''p1''])
        (addPod example_pod (NewCache_instance None None))) ''lora-a'' ''p1''"
proof -
  have names: "MName (example_adapter []) = MName (example_adapter [''p1''])"
    by (simp add: example_adapter_def)
  have reg: "map_of (Pods (addPod example_pod (NewCache_instance None None))) ''p1'' \<noteq> None"
    by (simp add: example_defs index_defs)
  show ?thesis
    using names reg
      updateModelAdapter_bindings [OF names, of "''p1''"
        "addPod example_pod (NewCache_instance None None)" "''llama''"]
    by (simp add: example_adapter_def)
qed

text \<open>
  Claim C6, as stated for every pod, fails: \<open>deletePod\<close> returns at once for a pod object
  without the model label. After pod \<open>p1\<close> was added, bound to \<open>lora-a\<close> and updated to
  carry no label, deleting it leaves \<open>(p1, lora-a)\<close> in both projections.
\<close>

theorem deletePod_ignores_unlabelled_pod:
  "inPodToModel
     (deletePod example_pod_unlabelled
        (handleEvents [PodAdded example_pod, ModelAdapterAdded (example_adapter [''p1'']),
                       PodUpdated example_pod example_pod_unlabelled]
           (NewCache_instance None None))) ''p1'' ''lora-a'' \<and>
   inModelToPod
     (deletePod example_pod_unlabelled
        (handleEvents [PodAdded example_pod, ModelAdapterAdded (example_adapter [''p1'']),
                       PodUpdated example_pod example_pod_unlabelled]
           (NewCache_instance None None))) ''lora-a'' ''p1''"
  by (simp add: example_defs index_defs inPodToModel_def inModelToPod_def)

text \<open>
  Claim C6, amended. For a pod that carries the model-identifier label, in a cache whose
  model-to-pods entries all have their pod-to-models counterpart (as in every state reached
  by events from the constructed cache, \<open>modelToPodMirrored_handleEvents\<close>), \<open>deletePod\<close>
  leaves no binding of that pod name in either projection, no pod-to-models entry, no
  registry entry and no metrics sub-map for it. For a pod without the label the cache is
  unchanged.
\<close>

theorem deletePod_removes_labelled_pod:
  "(map_of (Labels pod) modelIdentifier \<noteq> None \<and> modelToPodMirrored c \<longrightarrow>
      (\<forall>m. \<not> inPodToModel (deletePod pod c) (Name pod) m) \<and>
      (\<forall>m. \<not> inModelToPod (deletePod pod c) m (Name pod)) \<and>
      map_of (PodToModelMapping (deletePod pod c)) (Name pod) = None \<and>
      map_of (Pods (deletePod pod c)) (Name pod) = None \<and>
      map_of (PodMetrics (deletePod pod c)) (Name pod) = None) \<and>
   (map_of (Labels pod) modelIdentifier = None \<longrightarrow> deletePod pod c = c)"
proof (intro conjI impI allI)
  assume h: "map_of (Labels pod) modelIdentifier \<noteq> None \<and> modelToPodMirrored c"
  show "\<And>m. \<not> inPodToModel (deletePod pod c) (Name pod) m"
    using h by (simp add: inPodToModel_deletePod)
  show "\<And>m. \<not> inModelToPod (deletePod pod c) m (Name pod)"
    using h by (auto simp add: inModelToPod_deletePod modelToPodMirrored_def)
  show "map_of (PodToModelMapping (deletePod pod c)) (Name pod) = None"
    using h by (auto simp add: deletePod_def Let_def delete_conv' split: option.splits)
  show "map_of (Pods (deletePod pod c)) (Name pod) = None"
    using h by (auto simp add: deletePod_def Let_def delete_conv' split: option.splits)
  show "map_of (PodMetrics (deletePod pod c)) (Name pod) = None"
    using h by (auto simp add: deletePod_def Let_def delete_conv' split: option.splits)
next
  assume "map_of (Labels pod) modelIdentifier = None"
  then show "deletePod pod c = c" by (simp add: deletePod_def)
qed

text \<open>
  The amended statement for pod \<open>p1\<close> bound to its base model and to \<open>lora-a\<close>.
\<close>

theorem deletePod_removes_labelled_pod_witness:
  "map_of (Labels example_pod) modelIdentifier \<noteq> None \<and>
   modelToPodMirrored
     (handleEvents [PodAdded example_pod, ModelAdapterAdded (example_adapter [''p1''])]
        (NewCache_instance None None)) \<and>
   inPodToModel
     (handleEvents [PodAdded example_pod, ModelAdapterAdded (example_adapter [''p1''])]
        (NewCache_instance None None)) ''p1'' ''lora-a'' \<and>
   \<not> inPodToModel
       (deletePod example_pod
          (handleEvents [PodAdded example_pod, ModelAdapterAdded (example_adapter [''p1''])]
             (NewCache_instance None None))) ''p1'' ''lora-a'' \<and>
   \<not> inModelToPod
       (deletePod example_pod
          (handleEvents [PodAdded example_pod, ModelAdapterAdded (example_adapter [''p1''])]
             (NewCache_instance None None))) ''lora-a'' ''p1'' \<and>
   map_of (Pods (deletePod example_pod
          (handleEvents [PodAdded example_pod, ModelAdapterAdded (example_adapter [''p1''])]
             (NewCache_instance None None)))) ''p1'' = None"
proof -
  have label: "map_of (Labels example_pod) modelIdentifier \<noteq> None"
    by (simp add: example_pod_def modelIdentifier_def)
  have name: "Name example_pod = ''p1''"
    by (simp add: example_pod_def)
  note inv = modelToPodMirrored_handleEvents
    [of "[PodAdded example_pod, ModelAdapterAdded (example_adapter [''p1''])]" None None]
  have before: "inPodToModel
     (handleEvents [PodAdded example_pod, ModelAdapterAdded (example_adapter [''p1''])]
        (NewCache_instance None None)) ''p1'' ''lora-a''"
    by (simp add: example_defs index_defs inPodToModel_def)
  show ?thesis
    using label inv before
      deletePod_removes_labelled_pod [of example_pod
        "handleEvents [PodAdded example_pod, ModelAdapterAdded (example_adapter [''p1''])]
           (NewCache_instance None None)"]
    by (simp add: name)
qed

text \<open>
  Claim C8. \<open>addPod\<close> leaves the whole cache unchanged when the pod lacks the
  model-identifier label, and applying it twice with the same pod gives the same cache as
  applying it once.
\<close>

theorem addPod_noop_and_idempotent:
  "(map_of (Labels pod) modelIdentifier = None \<longrightarrow> addPod pod c = c) \<and>
   addPod pod (addPod pod c) = addPod pod c"
proof
  show "map_of (Labels pod) modelIdentifier = None \<longrightarrow> addPod pod c = c"
    by (simp add: addPod_def)
  show "addPod pod (addPod pod c) = addPod pod c"
    by (cases "map_of (Labels pod) modelIdentifier")
       (auto simp add: addPod_def addPodAndModelMapping_def update_conv' Let_def
          split: option.splits)
qed

text \<open>
  Both parts at concrete pods: one without the label, one with it.
\<close>

theorem addPod_noop_and_idempotent_witness:
  "map_of (Labels example_pod_unlabelled) modelIdentifier = None \<and>
   addPod example_pod_unlabelled (NewCache_instance None None) = NewCache_instance None None \<and>
   addPod example_pod (addPod example_pod (NewCache_instance None None)) =
     addPod example_pod (NewCache_instance None None)"
  using addPod_noop_and_idempotent [of example_pod_unlabelled "NewCache_instance None None"]
    addPod_noop_and_idempotent [of example_pod "NewCache_instance None None"]
  by (simp add: example_pod_unlabelled_def)

section \<open>Properties of the request trace\<close>

lemmas trace_consts = keyVersionRequestTrace_def keyPrecisionRequestTrace_def
  keyWriteRequestTraceIntervalInSeconds_def versionRequestTrace_def
  writeRequestTraceIntervalInSeconds_def

lemma newTrace_eq:
  "newTrace = [(''meta_interval_sec'', 10), (''meta_precision'', 10), (''meta_v'', 2)]"
  by (simp add: newTrace_def trace_consts)

lemma colon_in_bucketKey: "CHR '':'' \<in> set (bucketKey i j)"
  by (simp add: bucketKey_def)

lemma bucketKey_not_meta: "bucketKey i j \<notin> metaKeys"
proof
  assume "bucketKey i j \<in> metaKeys"
  then have "CHR '':'' \<in> set ''meta_interval_sec'' \<or> CHR '':'' \<in> set ''meta_precision'' \<or>
             CHR '':'' \<in> set ''meta_v''"
    using colon_in_bucketKey [of i j] by (auto simp add: metaKeys_def trace_consts)
  then show False by simp
qed

lemma newTrace_lookup: "k \<notin> metaKeys \<Longrightarrow> map_of newTrace k = None"
  by (auto simp add: newTrace_eq metaKeys_def trace_consts)





lemma bucketIndex_one: "bucketIndex impl 1 = 0"
  by (simp add: bucketIndex_def float64_def precisionRequestTrace_def)

lemma formatInt_zero: "formatInt 0 = ''0''"
  by (simp add: formatInt_def string_of_nat.simps [of 0] digit_char_def)

lemma bucketKey_zero: "bucketKey 0 0 = ''0:0''"
  by (simp add: bucketKey_def formatInt_zero)

lemma traceCount_AddRequestTrace_key:
  "traceCount (AddRequestTrace impl m i j c) m
     (bucketKey (bucketIndex impl i) (bucketIndex impl j)) =
   traceCount c m (bucketKey (bucketIndex impl i) (bucketIndex impl j)) + 1"
  using newTrace_lookup [OF bucketKey_not_meta]
  by (auto simp add: AddRequestTrace_def traceCount_def Let_def update_conv'
      split: option.splits)

lemma traceCount_AddRequestTrace_other:
  "k \<noteq> bucketKey (bucketIndex impl i) (bucketIndex impl j) \<Longrightarrow> k \<notin> metaKeys \<Longrightarrow>
     traceCount (AddRequestTrace impl m i j c) m k = traceCount c m k"
  using newTrace_lookup [of k]
  by (auto simp add: AddRequestTrace_def traceCount_def Let_def update_conv'
      split: option.splits)

lemma requestTrace_AddRequestTrace_other_model:
  "m' \<noteq> m \<Longrightarrow>
     map_of (requestTrace (AddRequestTrace impl m i j c)) m' = map_of (requestTrace c) m'"
  by (simp add: AddRequestTrace_def Let_def update_conv')

lemma AddRequestTrace_only_trace:
  "AddRequestTrace impl m i j c = c\<lparr>requestTrace := requestTrace (AddRequestTrace impl m i j c)\<rparr>"
  by (simp add: AddRequestTrace_def Let_def)

lemma AddRequestTrace_fresh:
  "requestTrace (AddRequestTrace impl m i j (NewCache_instance rc api)) =
     [(m, [(''meta_interval_sec'', 10), (''meta_precision'', 10), (''meta_v'', 2),
           (bucketKey (bucketIndex impl i) (bucketIndex impl j), 1)])]"
  using newTrace_lookup [OF bucketKey_not_meta, of "bucketIndex impl i" "bucketIndex impl j"]
  using bucketKey_not_meta [of "bucketIndex impl i" "bucketIndex impl j"]
  by (auto simp add: AddRequestTrace_def Let_def NewCache_instance_def newTrace_eq
      metaKeys_def trace_consts)

lemma string_of_nat_numeral:
  "string_of_nat (numeral k) =
     (if (numeral k :: nat) < 10 then [digit_char (numeral k)]
      else string_of_nat (numeral k div 10) @ [digit_char (numeral k mod 10)])"
  by (rule string_of_nat.simps)


lemma formatInt_ex: "formatInt 1730000000 = ''1730000000''"
  by (simp add: formatInt_def string_of_nat_numeral string_of_nat.simps [of "Suc 0"]
      digit_char_def)






text \<open>
  Claim C7. A call \<open>AddRequestTrace(model, 1, 1)\<close> adds exactly one to the bucket \<open>"0:0"\<close>
  of that model: no other bucket of the model and no other model changes, and on the
  constructed cache the model's trace holds the three meta entries and \<open>"0:0"\<close> with
  count one.
\<close>

theorem AddRequestTrace_one_one:
  "traceCount (AddRequestTrace impl m 1 1 c) m ''0:0'' = traceCount c m ''0:0'' + 1 \<and>
   (\<forall>k. k \<noteq> ''0:0'' \<and> k \<notin> metaKeys \<longrightarrow>
      traceCount (AddRequestTrace impl m 1 1 c) m k = traceCount c m k) \<and>
   (\<forall>m'. m' \<noteq> m \<longrightarrow>
      map_of (requestTrace (AddRequestTrace impl m 1 1 c)) m' = map_of (requestTrace c) m') \<and>
   requestTrace (AddRequestTrace impl m 1 1 (NewCache_instance rc api)) =
     [(m, [(''meta_interval_sec'', 10), (''meta_precision'', 10), (''meta_v'', 2),
           (''0:0'', 1)])]"
proof -
  have k: "bucketKey (bucketIndex impl 1) (bucketIndex impl 1) = ''0:0''"
    by (simp add: bucketIndex_one bucketKey_zero)
  show ?thesis
    using traceCount_AddRequestTrace_key [of impl m 1 1 c]
      traceCount_AddRequestTrace_other [of _ impl 1 1 m c]
      requestTrace_AddRequestTrace_other_model [of _ m impl 1 1 c]
      AddRequestTrace_fresh [of impl m 1 1 rc api]
    by (simp add: k)
qed

text \<open>
  The statement for model \<open>llama-7b\<close> on the constructed cache, with \<open>"3:4"\<close> as the
  other bucket.
\<close>

theorem AddRequestTrace_one_one_witness:
  "''3:4'' \<noteq> ''0:0'' \<and> ''3:4'' \<notin> metaKeys \<and>
   traceCount (AddRequestTrace int64_amd64 ''llama-7b'' 1 1 (NewCache_instance None None))
     ''llama-7b'' ''0:0'' = 1 \<and>
   traceCount (AddRequestTrace int64_amd64 ''llama-7b'' 1 1 (NewCache_instance None None))
     ''llama-7b'' ''3:4'' = 0"
proof -
  have nm: "''3:4'' \<notin> metaKeys" by (simp add: metaKeys_def trace_consts)
  show ?thesis
    using nm AddRequestTrace_one_one [of int64_amd64 "''llama-7b''" "NewCache_instance None None"
        None None]
    by (simp add: traceCount_def NewCache_instance_def)
qed

section \<open>Properties of the flush and of the subscribers\<close>

lemma NilMap_forEach_recordMetric:
  "metrics c = None \<Longrightarrow> ms \<noteq> [] \<Longrightarrow> forEach recordMetric ms c = Inl AssignmentToEntryInNilMap"
  by (cases ms) (simp_all add: recordMetric_def)

text \<open>
  Claim C3. After \<open>writeRequestTraceToStorage\<close> the trace map is empty and every other
  field of the cache is as before, whatever the encoder and the store answer and also when
  the call panics on a nil client.
\<close>

theorem writeRequestTraceToStorage_clears_trace:
  "requestTrace (fst (writeRequestTraceToStorage marshal redisSet roundT c)) = [] \<and>
   fst (writeRequestTraceToStorage marshal redisSet roundT c) = c\<lparr>requestTrace := []\<rparr>"
  by (simp add: writeRequestTraceToStorage_def)

text \<open>
  Two runs of the flush: a write that the store refuses is logged, and a nil client panics
  at the first write; the trace is emptied in both.
\<close>

lemma writeRequestTraceToStorage_failed_write:
  "writeRequestTraceToStorage (\<lambda>trace. Some ''{}'') (\<lambda>key v. False) 1730000000
     (AddRequestTrace impl ''m'' 1 1 (NewCache_instance (Some (RedisClient ''redis'')) None)) =
   (NewCache_instance (Some (RedisClient ''redis'')) None,
    [(''aibrix:m_request_trace_1730000000'', ''{}'', 10)],
    [RedisError ''aibrix:m_request_trace_1730000000''], Returned)"
  by (simp add: writeRequestTraceToStorage_def AddRequestTrace_def Let_def NewCache_instance_def
      formatInt_ex expireWriteRequestTraceIntervalInMins_def)

lemma writeRequestTraceToStorage_nil_client:
  "writeRequestTraceToStorage (\<lambda>trace. Some ''{}'') redisSet roundT
     (AddRequestTrace impl ''m'' 1 1 (NewCache_instance None None)) =
   (NewCache_instance None None, [], [], Panicked NilPointerDereference)"
  by (simp add: writeRequestTraceToStorage_def AddRequestTrace_def Let_def NewCache_instance_def)

text \<open>
  Claim C9. When the trace map is empty, a tick of the trace ticker issues no write and
  leaves the cache unchanged; so does a direct call of the flush.
\<close>

theorem empty_trace_flush_writes_nothing:
  "requestTrace c = [] \<longrightarrow>
     traceTick marshal redisSet t c = (c, [], [], Returned) \<and>
     writeRequestTraceToStorage marshal redisSet roundT c = (c, [], [], Returned)"
  by (simp add: traceTick_def writeRequestTraceToStorage_def)

text \<open>
  The statement on the constructed cache with a client configured.
\<close>

theorem empty_trace_flush_writes_nothing_witness:
  "requestTrace (NewCache_instance (Some (RedisClient ''redis'')) None) = [] \<and>
   traceTick (\<lambda>trace. Some ''{}'') (\<lambda>key v. True) 1730000007
     (NewCache_instance (Some (RedisClient ''redis'')) None) =
     (NewCache_instance (Some (RedisClient ''redis'')) None, [], [], Returned)"
proof -
  have e: "requestTrace (NewCache_instance (Some (RedisClient ''redis'')) None) = []"
    by (simp add: NewCache_instance_def)
  show ?thesis
    using e empty_trace_flush_writes_nothing
      [of "NewCache_instance (Some (RedisClient ''redis'')) None" "\<lambda>trace. Some ''{}''"
        "\<lambda>key v. True" 1730000007 0]
    by blast
qed

text \<open>
  Claim C10 (no panic in \<open>AddSubscriber\<close> on a constructed cache, for a subscriber with a
  non-empty list of metrics). \<open>NewCache\<close> leaves the \<open>metrics\<close> map nil, and
  \<open>aggregateMetrics\<close> stores into it: evaluated for a subscriber of one metric, the call
  panics with an assignment to an entry in a nil map.
\<close>

theorem AddSubscriber_panics_on_constructed_cache:
  "AddSubscriber \<lparr>SubscribedMetrics = [''num_requests_running'']\<rparr> (NewCache_instance rc api) =
     Inl AssignmentToEntryInNilMap"
  by (simp add: AddSubscriber_def aggregateMetrics_def recordMetric_def NewCache_instance_def)

lemma subscriber_with_metrics_panics:
  "SubscribedMetrics s \<noteq> [] \<Longrightarrow>
     AddSubscriber s (NewCache_instance rc api) = Inl AssignmentToEntryInNilMap"
  by (simp add: AddSubscriber_def aggregateMetrics_def NewCache_instance_def
      NilMap_forEach_recordMetric)

end
